theory Spec2Isabelle
  imports Complex_Main
begin

section \<open>Python values, exceptions and outcomes\<close>

text \<open>
  The exceptions that the modelled functions can raise. \<open>TypeError\<close> is what
  \<^verbatim>\<open>len(None)\<close> raises, \<open>UnboundLocalError\<close> is a read of a local variable that
  no executed statement has assigned, \<open>ValueError\<close> is a shape mismatch in a
  matrix product (and the explicit raise of \<^verbatim>\<open>MultiSampleTransform\<close>),
  \<open>AttributeError\<close> is an attribute read on \<^verbatim>\<open>None\<close>, and \<open>ExternalError\<close> carries whatever a collaborator (resampler, functional op,
  cache, wrapped transform) raises; it propagates unchanged.
\<close>

datatype pyerr =
  TypeError | UnboundLocalError | ValueError | AttributeError | ExternalError string

text \<open>What a call does: it raises, or it returns a value.\<close>

datatype 'a outcome = Raised pyerr | Returned 'a

text \<open>
  The values kept in a metadata dictionary: interpolation and padding modes,
  devices and dtypes are strings or enum members (modelled by their string),
  a shape override is a sequence of integers.
\<close>

datatype metaval = MStr string | MShape "int list" | MBool bool

type_synonym pydict = "string \<rightharpoonup> metaval"

section \<open>Matrices\<close>

text \<open>
  Arrays of floats are idealised as lists of rationals: a vector is a list, a
  matrix is the list of its rows. Rounding is outside this model.
\<close>

type_synonym vec = "rat list"
type_synonym matrix = "rat list list"

definition ncols :: "matrix \<Rightarrow> nat" where
  "ncols M = (case M of [] \<Rightarrow> 0 | r # _ \<Rightarrow> length r)"

definition rectangular :: "matrix \<Rightarrow> bool" where
  "rectangular M = list_all (\<lambda>r. length r = ncols M) M"

definition dot :: "vec \<Rightarrow> vec \<Rightarrow> rat" where
  "dot u v = sum_list (map2 (*) u v)"

definition column :: "matrix \<Rightarrow> nat \<Rightarrow> vec" where
  "column M j = map (\<lambda>r. r ! j) M"

text \<open>
  numpy's \<^verbatim>\<open>e @ M\<close> for a 1-d array \<open>e\<close> and a 2-d array \<open>M\<close>: the row vector
  times the matrix; a length that differs from the number of rows raises
  ValueError.
\<close>

definition vecmat :: "vec \<Rightarrow> matrix \<Rightarrow> pyerr + vec" where
  "vecmat e M =
     (if rectangular M \<and> length e = length M
      then Inr (map (\<lambda>j. dot e (column M j)) [0..<ncols M])
      else Inl ValueError)"

text \<open>
  Modelled from the spec: the \<^verbatim>\<open>@\<close> of the matrix objects of
  \<^verbatim>\<open>monai.utils.mapping_stack\<close>, which is not among the sources. It is the matrix
  product of the two underlying arrays (section 4.1 of the specification);
  operands whose inner dimensions differ raise ValueError, as numpy does.
\<close>

definition matmul :: "matrix \<Rightarrow> matrix \<Rightarrow> pyerr + matrix" where
  "matmul A B =
     (if rectangular A \<and> rectangular B \<and> ncols A = length B \<and> A \<noteq> []
      then Inr (map (\<lambda>r. map (\<lambda>j. dot r (column B j)) [0..<ncols B]) A)
      else Inl ValueError)"

text \<open>
  Modelled from the spec: \<^verbatim>\<open>MatrixFactory(dim_count, backend, device)\<close> of
  \<^verbatim>\<open>monai.utils.mapping_stack\<close>, which is not among the sources. The factory is
  for \<open>d\<close> spatial dimensions and builds \<open>(d+1) \<times> (d+1)\<close> homogeneous matrices;
  a negative count (a 0-d array) has no such matrices and is rejected here.
\<close>

definition MatrixFactory :: "int \<Rightarrow> pyerr + nat" where
  "MatrixFactory dim_count = (if dim_count < 0 then Inl ValueError else Inr (nat dim_count))"

text \<open>
  Modelled from the spec: \<^verbatim>\<open>MatrixFactory.identity()\<close>, the
  \<open>(d+1) \<times> (d+1)\<close> identity matrix.
\<close>

definition identity :: "nat \<Rightarrow> matrix" where
  "identity d = map (\<lambda>i. map (\<lambda>j. if i = j then 1 else 0) [0..<Suc d]) [0..<Suc d]"

text \<open>
  Modelled from the spec: \<^verbatim>\<open>MatrixFactory.translate(vector)\<close>, the identity with
  the vector in the last column; a vector of the wrong length is rejected.
\<close>

definition translate :: "nat \<Rightarrow> vec \<Rightarrow> pyerr + matrix" where
  "translate d v =
     (if length v = d
      then Inr (map (\<lambda>i. map (\<lambda>j. if i = j then 1 else if j = d \<and> i < d then v ! i else 0)
                              [0..<Suc d]) [0..<Suc d])
      else Inl ValueError)"

section \<open>apply.py\<close>

subsection \<open>extents_from_shape\<close>

text \<open>
  \<^verbatim>\<open>extents = [[0, shape[i]] for i in range(1, len(shape))]\<close>, then the
  cartesian product in the order of \<^verbatim>\<open>itertools.product\<close> (the last axis varies
  fastest), each tuple extended by 1.
\<close>

definition extents_from_shape :: "int list \<Rightarrow> int list list" where
  "extents_from_shape shape =
     (let extents = map (\<lambda>i. [0, shape ! i]) [1..<length shape];
          extents = product_lists extents
      in map (\<lambda>e. e @ [1]) extents)"

subsection \<open>metadata_is_compatible, prepare_args_dict_for_apply\<close>

definition metadata_is_compatible :: "'a option \<Rightarrow> 'a option \<Rightarrow> bool" where
  "metadata_is_compatible value_1 value_2 =
     (case value_1 of
        None \<Rightarrow> True
      | Some v1 \<Rightarrow> (case value_2 of None \<Rightarrow> True | Some v2 \<Rightarrow> v1 = v2))"

definition prepare_args_dict_for_apply ::
  "metaval option \<Rightarrow> metaval option \<Rightarrow> metaval option \<Rightarrow> metaval option \<Rightarrow> pydict" where
  "prepare_args_dict_for_apply cur_mode cur_padding_mode cur_device cur_dtype =
     (let kwargs = Map.empty;
          kwargs = (case cur_mode of None \<Rightarrow> kwargs | Some v \<Rightarrow> kwargs(''mode'' \<mapsto> v));
          kwargs = (case cur_padding_mode of None \<Rightarrow> kwargs
                    | Some v \<Rightarrow> kwargs(''padding_mode'' \<mapsto> v));
          kwargs = (case cur_device of None \<Rightarrow> kwargs | Some v \<Rightarrow> kwargs(''device'' \<mapsto> v));
          kwargs = (case cur_dtype of None \<Rightarrow> kwargs | Some v \<Rightarrow> kwargs(''dtype'' \<mapsto> v))
      in kwargs)"

subsection \<open>Images and their pending queue\<close>

text \<open>
  A queue entry (\<^verbatim>\<open>MetaMatrix\<close>): the matrix increment and the metadata
  dictionary. An image (\<^verbatim>\<open>MetaTensor\<close>): its shape, its queue of pending
  transforms, and its pixel data, which no function of this development reads.
\<close>

record meta_matrix =
  mm_matrix :: matrix
  mm_metadata :: pydict

record 'p image =
  img_shape :: "int list"
  pending_transforms :: "meta_matrix list"
  img_pixels :: 'p

definition push_pending_transform :: "'p image \<Rightarrow> meta_matrix \<Rightarrow> 'p image" where
  "push_pending_transform img m = img\<lparr>pending_transforms := pending_transforms img @ [m]\<rparr>"

definition has_pending_transforms :: "'p image \<Rightarrow> bool" where
  "has_pending_transforms img = (pending_transforms img \<noteq> [])"

definition clear_pending_transforms :: "'p image \<Rightarrow> 'p image" where
  "clear_pending_transforms img = img\<lparr>pending_transforms := []\<rparr>"

subsection \<open>starting_matrix_and_extents\<close>

fun map_vecmat :: "vec list \<Rightarrow> matrix \<Rightarrow> pyerr + vec list" where
  "map_vecmat [] M = Inr []"
| "map_vecmat (e # es) M =
     (case vecmat e M of
        Inl err \<Rightarrow> Inl err
      | Inr e' \<Rightarrow> (case map_vecmat es M of Inl err \<Rightarrow> Inl err | Inr es' \<Rightarrow> Inr (e' # es')))"

definition starting_matrix_and_extents :: "nat \<Rightarrow> 'p image \<Rightarrow> pyerr + (matrix \<times> vec list)" where
  "starting_matrix_and_extents matrix_factory data =
     (let cumulative_matrix = identity matrix_factory;
          cumulative_extents = map (map rat_of_int) (extents_from_shape (img_shape data))
      in case translate matrix_factory (map (\<lambda>d. rat_of_int d / 2) (tl (img_shape data))) of
           Inl err \<Rightarrow> Inl err
         | Inr translate_to_centre \<Rightarrow>
             (case matmul translate_to_centre cumulative_matrix of
                Inl err \<Rightarrow> Inl err
              | Inr cumulative_matrix \<Rightarrow>
                  (case map_vecmat cumulative_extents translate_to_centre of
                     Inl err \<Rightarrow> Inl err
                   | Inr cumulative_extents \<Rightarrow> Inr (cumulative_matrix, cumulative_extents))))"

subsection \<open>apply\<close>

text \<open>
  The resampler \<^verbatim>\<open>Affine(norm_coords=False, affine=M, **kwargs)(img=data)\<close> is a
  collaborator outside the sources: it is a parameter, a function from the
  matrix, the keyword arguments and the image to a new image or an exception.
  Every invocation is logged with the matrix and the keyword arguments it got.
\<close>

type_synonym call = "matrix \<times> pydict"
type_synonym 'p resampler = "matrix \<Rightarrow> pydict \<Rightarrow> 'p image \<Rightarrow> pyerr + 'p image"

text \<open>
  The local variables of \<^verbatim>\<open>apply\<close> while its loop runs. \<open>kwargs\<close> is \<open>None\<close>
  as long as no statement has assigned it.
\<close>

record 'p apply_state =
  st_data :: "'p image"
  cumulative_matrix :: matrix
  cumulative_extents :: "vec list"
  cur_mode :: "metaval option"
  cur_padding_mode :: "metaval option"
  cur_device :: "metaval option"
  cur_dtype :: "metaval option"
  kwargs :: "pydict option"
  calls :: "call list"

text \<open>
  One pass through the body of \<^verbatim>\<open>for meta_matrix in pending_\<close>. An exception
  comes with the resampler calls made so far.
\<close>

definition apply_step ::
  "'p resampler \<Rightarrow> 'p apply_state \<Rightarrow> meta_matrix \<Rightarrow> (pyerr \<times> call list) + 'p apply_state" where
  "apply_step Affine st meta_matrix =
     (let next_matrix = mm_matrix meta_matrix
      in case matmul next_matrix (cumulative_matrix st) of
           Inl err \<Rightarrow> Inl (err, calls st)
         | Inr cm \<Rightarrow>
             (case map_vecmat (cumulative_extents st) cm of
                Inl err \<Rightarrow> Inl (err, calls st)
              | Inr ce \<Rightarrow>
                  (let new_mode = mm_metadata meta_matrix ''mode'';
                       new_padding_mode = mm_metadata meta_matrix ''padding_mode'';
                       new_device = mm_metadata meta_matrix ''device'';
                       new_dtype = mm_metadata meta_matrix ''dtype'';
                       mode_compat = metadata_is_compatible (cur_mode st) new_mode;
                       padding_mode_compat =
                         metadata_is_compatible (cur_padding_mode st) new_padding_mode;
                       device_compat = metadata_is_compatible (cur_device st) new_device;
                       dtype_compat = metadata_is_compatible (cur_dtype st) new_dtype;
                       st1 = st\<lparr>cumulative_matrix := cm, cumulative_extents := ce\<rparr>
                   in if mode_compat = False \<or> padding_mode_compat = False \<or>
                         device_compat = False \<or> dtype_compat = False
                      then
                        (let kw = prepare_args_dict_for_apply (cur_mode st) (cur_padding_mode st)
                                    (cur_device st) (cur_dtype st);
                             cs = calls st @ [(cm, kw)]
                         in case Affine cm kw (st_data st) of
                              Inl err \<Rightarrow> Inl (err, cs)
                            | Inr d \<Rightarrow>
                                Inr (st1\<lparr>st_data := d, kwargs := Some kw, calls := cs,
                                         cur_mode := new_mode,
                                         cur_padding_mode := new_padding_mode,
                                         cur_device := new_device,
                                         cur_dtype := new_dtype\<rparr>))
                      else Inr st1)))"

fun apply_loop ::
  "'p resampler \<Rightarrow> 'p apply_state \<Rightarrow> meta_matrix list \<Rightarrow> (pyerr \<times> call list) + 'p apply_state" where
  "apply_loop Affine st [] = Inr st"
| "apply_loop Affine st (meta_matrix # rest) =
     (case apply_step Affine st meta_matrix of
        Inl err \<Rightarrow> Inl err
      | Inr st' \<Rightarrow> apply_loop Affine st' rest)"

text \<open>The state in which the loop starts: lines 113 to 119 of the source.\<close>

definition apply_init :: "'p image \<Rightarrow> matrix \<Rightarrow> vec list \<Rightarrow> 'p apply_state" where
  "apply_init data cm ce =
     \<lparr>st_data = data, cumulative_matrix = cm, cumulative_extents = ce,
      cur_mode = None, cur_padding_mode = None, cur_device = None, cur_dtype = None,
      kwargs = None, calls = []\<rparr>"

text \<open>
  \<^verbatim>\<open>apply(data, pending=None)\<close>. The guard reads the argument \<open>pending\<close>, the
  loop runs over the source's \<^verbatim>\<open>pending_\<close> (here \<open>pending'\<close>), which is the queue
  of \<open>data\<close>. The result is the outcome together with the log of resampler
  calls; the returned value is \<open>Some\<close> image for \<^verbatim>\<open>return data\<close> and \<open>None\<close>
  where the function falls off its end. The \<^verbatim>\<open>print\<close> of the flush branch is
  left out.
\<close>

definition "apply" ::
  "'p resampler \<Rightarrow> 'p image \<Rightarrow> meta_matrix list option \<Rightarrow> 'p image option outcome \<times> call list" where
  "apply Affine data pending =
     (let pending' = pending_transforms data
      in case pending of
           None \<Rightarrow> (Raised TypeError, [])
         | Some p \<Rightarrow>
             if length p = 0 then (Returned (Some data), [])
             else
               (let dim_count = int (length (img_shape data)) - 1
                in case MatrixFactory dim_count of
                     Inl err \<Rightarrow> (Raised err, [])
                   | Inr matrix_factory \<Rightarrow>
                       (case starting_matrix_and_extents matrix_factory data of
                          Inl err \<Rightarrow> (Raised err, [])
                        | Inr (cm, ce) \<Rightarrow>
                            (case apply_loop Affine (apply_init data cm ce) pending' of
                               Inl (err, cs) \<Rightarrow> (Raised err, cs)
                             | Inr st \<Rightarrow>
                                 (case kwargs st of
                                    None \<Rightarrow> (Raised UnboundLocalError, calls st)
                                  | Some kw \<Rightarrow>
                                      (let cs = calls st @ [(cumulative_matrix st, kw)]
                                       in case Affine (cumulative_matrix st) kw (st_data st) of
                                            Inl err \<Rightarrow> (Raised err, cs)
                                          | Inr d \<Rightarrow>
                                              (let d = clear_pending_transforms d
                                               in (Returned None, cs))))))))"

text \<open>
  The state in which no metadata has been accumulated, \<open>kwargs\<close> is unassigned
  and the resampler has not been called: the state the loop starts in.
\<close>

definition idle :: "'p apply_state \<Rightarrow> bool" where
  "idle st = (cur_mode st = None \<and> cur_padding_mode st = None \<and> cur_device st = None \<and>
     cur_dtype st = None \<and> kwargs st = None \<and> calls st = [])"

section \<open>array.py\<close>

subsection \<open>Python's or, and the inputs of an op\<close>

text \<open>
  \<^verbatim>\<open>a or b\<close> is \<open>a\<close> when \<open>a\<close> is truthy and \<open>b\<close> otherwise. \<open>None\<close>, the empty
  string and \<open>False\<close> are falsy.
\<close>

definition py_or_str :: "string option \<Rightarrow> string \<Rightarrow> string" where
  "py_or_str a b = (case a of None \<Rightarrow> b | Some s \<Rightarrow> if s = [] then b else s)"

definition py_or_bool :: "bool option \<Rightarrow> bool \<Rightarrow> bool" where
  "py_or_bool a b = (case a of None \<Rightarrow> b | Some x \<Rightarrow> if x then x else b)"

text \<open>A float or a sequence of floats (an angle, a zoom factor).\<close>

datatype floats = Scalar rat | Floats "rat list"

text \<open>An op is called on a plain array (shape and data) or on a \<^verbatim>\<open>MetaTensor\<close>.\<close>

datatype 'p input = Ndarray "int list" 'p | MetaTensor "'p image"

text \<open>
  The lines shared by every wrapper:
  \<^verbatim>\<open>shape_override_ = shape_override\<close>, replaced by the \<^verbatim>\<open>"shape_override"\<close> of the
  last queue entry when none was passed and the input is a \<^verbatim>\<open>MetaTensor\<close> with
  pending transforms.
\<close>

definition pending_shape_override :: "metaval option \<Rightarrow> 'p input \<Rightarrow> metaval option" where
  "pending_shape_override shape_override img =
     (case img of
        Ndarray _ _ \<Rightarrow> shape_override
      | MetaTensor t \<Rightarrow>
          if shape_override = None \<and> has_pending_transforms t
          then mm_metadata (last (pending_transforms t)) ''shape_override''
          else shape_override)"

text \<open>
  The functional ops of \<^verbatim>\<open>monai.transforms.atmostonce.functional\<close> are not among
  the sources: each is a parameter (\<open>rotate_op\<close> for \<^verbatim>\<open>rotate\<close>, \<open>flip_op\<close> for
  \<^verbatim>\<open>flip\<close>) that returns the image to push to, the matrix increment and the
  metadata, or raises.
\<close>

type_synonym 'p op_result = "pyerr + ('p image \<times> matrix \<times> pydict)"

subsection \<open>Rotate\<close>

record Rotate =
  Rotate_angle :: floats
  Rotate_keep_size :: bool
  Rotate_mode :: string
  Rotate_padding_mode :: string
  Rotate_align_corners :: bool
  Rotate_dtype :: string
  Rotate_lazy_evaluation :: bool

text \<open>
  Lines 199 to 204 of \<^verbatim>\<open>Rotate.__call__\<close>: the effective angle, mode, padding
  mode, align_corners, keep_size and dtype.
\<close>

definition Rotate_resolve ::
  "Rotate \<Rightarrow> floats option \<Rightarrow> string option \<Rightarrow> string option \<Rightarrow> bool option \<Rightarrow>
   floats \<times> string \<times> string \<times> bool \<times> bool \<times> string" where
  "Rotate_resolve self angle mode padding_mode align_corners =
     (let angle = Rotate_angle self;
          mode = py_or_str mode (Rotate_mode self);
          padding_mode = py_or_str padding_mode (Rotate_padding_mode self);
          align_corners = py_or_bool align_corners (Rotate_align_corners self);
          keep_size = Rotate_keep_size self;
          dtype = Rotate_dtype self
      in (angle, mode, padding_mode, align_corners, keep_size, dtype))"

type_synonym 'p rotate_fn =
  "'p input \<Rightarrow> floats \<Rightarrow> bool \<Rightarrow> string \<Rightarrow> string \<Rightarrow> bool \<Rightarrow> string \<Rightarrow> metaval option \<Rightarrow>
   'p op_result"

definition Rotate_call ::
  "'p rotate_fn \<Rightarrow> 'p resampler \<Rightarrow> Rotate \<Rightarrow> 'p input \<Rightarrow> floats option \<Rightarrow> string option \<Rightarrow>
   string option \<Rightarrow> bool option \<Rightarrow> metaval option \<Rightarrow> 'p image option outcome \<times> call list" where
  "Rotate_call rotate_op Affine self img angle mode padding_mode align_corners shape_override =
     (case Rotate_resolve self angle mode padding_mode align_corners of
        (angle, mode, padding_mode, align_corners, keep_size, dtype) \<Rightarrow>
          (let shape_override' = pending_shape_override shape_override img
           in case rotate_op img angle keep_size mode padding_mode align_corners dtype
                     shape_override' of
                Inl err \<Rightarrow> (Raised err, [])
              | Inr (img_t, transform, metadata) \<Rightarrow>
                  (let img_t = push_pending_transform img_t
                                 \<lparr>mm_matrix = transform, mm_metadata = metadata\<rparr>
                   in if Rotate_lazy_evaluation self then (Returned (Some img_t), [])
                      else apply Affine img_t None)))"

text \<open>
  The deferred path followed by a flush: what a caller gets who calls the op
  configured for deferred evaluation and then \<^verbatim>\<open>apply(img_t)\<close> on the result.
\<close>

definition then_apply ::
  "'p resampler \<Rightarrow> 'p image option outcome \<times> call list \<Rightarrow> 'p image option outcome \<times> call list" where
  "then_apply Affine r =
     (case r of
        (Returned (Some img_t), cs) \<Rightarrow>
          (case apply Affine img_t None of (r', cs') \<Rightarrow> (r', cs @ cs'))
      | (Returned None, cs) \<Rightarrow> (Raised AttributeError, cs)
      | (Raised err, cs) \<Rightarrow> (Raised err, cs))"

subsection \<open>Flip\<close>

record Flip =
  Flip_spatial_axis :: "int list option"
  Flip_lazy_evaluation :: bool

text \<open>
  Line 102 of \<^verbatim>\<open>Flip.__call__\<close>,
  \<^verbatim>\<open>spatial_axis_ = self.spatial_axis = spatial_axis\<close>: a chained assignment, which
  stores the call-time value in both targets. The result is the effective axis
  and the op as it is afterwards.
\<close>

definition Flip_resolve :: "Flip \<Rightarrow> int list option \<Rightarrow> int list option \<times> Flip" where
  "Flip_resolve self spatial_axis =
     (let self = self\<lparr>Flip_spatial_axis := spatial_axis\<rparr>;
          spatial_axis' = spatial_axis
      in (spatial_axis', self))"

type_synonym 'p flip_fn = "'p input \<Rightarrow> int list option \<Rightarrow> metaval option \<Rightarrow> 'p op_result"

definition Flip_call ::
  "'p flip_fn \<Rightarrow> 'p resampler \<Rightarrow> Flip \<Rightarrow> 'p input \<Rightarrow> int list option \<Rightarrow> metaval option \<Rightarrow>
   ('p image option outcome \<times> call list) \<times> Flip" where
  "Flip_call flip_op Affine self img spatial_axis shape_override =
     (case Flip_resolve self spatial_axis of
        (spatial_axis', self) \<Rightarrow>
          (let shape_override' = pending_shape_override shape_override img
           in case flip_op img spatial_axis' shape_override' of
                Inl err \<Rightarrow> ((Raised err, []), self)
              | Inr (img_t, transform, metadata) \<Rightarrow>
                  (let img_t = push_pending_transform img_t
                                 \<lparr>mm_matrix = transform, mm_metadata = metadata\<rparr>
                   in if Flip_lazy_evaluation self then ((Returned (Some img_t), []), self)
                      else (apply Affine img_t None, self))))"

subsection \<open>Zoom\<close>

record Zoom =
  Zoom_factor :: floats
  Zoom_mode :: string
  Zoom_padding_mode :: string
  Zoom_align_corners :: "bool option"
  Zoom_keep_size :: bool
  Zoom_dtype :: string
  Zoom_lazy_evaluation :: bool

text \<open>
  Lines 261 to 266 of \<^verbatim>\<open>Zoom.__call__\<close>:
  \<^verbatim>\<open>factor = self.factor if factor is None else factor\<close> and so on.
\<close>

definition Zoom_resolve ::
  "Zoom \<Rightarrow> floats option \<Rightarrow> string option \<Rightarrow> string option \<Rightarrow> bool option \<Rightarrow>
   floats \<times> string \<times> string \<times> bool option \<times> bool \<times> string" where
  "Zoom_resolve self factor mode padding_mode align_corners =
     (let factor = (case factor of None \<Rightarrow> Zoom_factor self | Some v \<Rightarrow> v);
          mode = (case mode of None \<Rightarrow> Zoom_mode self | Some v \<Rightarrow> v);
          padding_mode = (case padding_mode of None \<Rightarrow> Zoom_padding_mode self | Some v \<Rightarrow> v);
          align_corners = (case align_corners of None \<Rightarrow> Zoom_align_corners self
                           | Some v \<Rightarrow> Some v);
          keep_size = Zoom_keep_size self;
          dtype = Zoom_dtype self
      in (factor, mode, padding_mode, align_corners, keep_size, dtype))"

section \<open>utility.py\<close>

subsection \<open>CachedTransform\<close>

text \<open>
  \<^verbatim>\<open>CacheMechanism\<close> is an interface: \<open>try_fetch\<close> and \<open>store\<close> are parameters
  that act on a cache state and may raise. The wrapped \<open>transforms\<close> is a
  parameter too; every invocation of it is logged with its arguments.
\<close>

record ('c, 'a) cached_state =
  cache :: 'c
  invocations :: "'a list"

definition CachedTransform_call ::
  "('k \<Rightarrow> 'c \<Rightarrow> (pyerr + bool \<times> 'v) \<times> 'c) \<Rightarrow> ('k \<Rightarrow> 'v \<Rightarrow> 'c \<Rightarrow> (pyerr + unit) \<times> 'c) \<Rightarrow>
   ('a \<Rightarrow> pyerr + 'v) \<Rightarrow> 'k \<Rightarrow> 'a \<Rightarrow> ('c, 'a) cached_state \<Rightarrow>
   'v outcome \<times> ('c, 'a) cached_state" where
  "CachedTransform_call try_fetch store transforms key args s =
     (case try_fetch key (cache s) of
        (Inl err, c1) \<Rightarrow> (Raised err, s\<lparr>cache := c1\<rparr>)
      | (Inr (is_present, value), c1) \<Rightarrow>
          if is_present then (Returned value, s\<lparr>cache := c1\<rparr>)
          else
            (let s1 = s\<lparr>cache := c1, invocations := invocations s @ [args]\<rparr>
             in case transforms args of
                  Inl err \<Rightarrow> (Raised err, s1)
                | Inr result \<Rightarrow>
                    (case store key result c1 of
                       (Inl err, c2) \<Rightarrow> (Raised err, s1\<lparr>cache := c2\<rparr>)
                     | (Inr _, c2) \<Rightarrow> (Returned result, s1\<lparr>cache := c2\<rparr>))))"

text \<open>A cache kept in a dictionary, to run \<open>CachedTransform_call\<close> on.\<close>

definition dict_try_fetch :: "'k \<Rightarrow> ('k \<rightharpoonup> 'v) \<Rightarrow> (pyerr + bool \<times> 'v option) \<times> ('k \<rightharpoonup> 'v)" where
  "dict_try_fetch key c = (Inr (c key \<noteq> None, c key), c)"

definition dict_store ::
  "'k \<Rightarrow> 'v option \<Rightarrow> ('k \<rightharpoonup> 'v) \<Rightarrow> (pyerr + unit) \<times> ('k \<rightharpoonup> 'v)" where
  "dict_store key v c = (Inr (), c(key := v))"

subsection \<open>MultiSampleTransform\<close>

text \<open>
  The values that flow through \<^verbatim>\<open>MultiSampleTransform\<close>: a tensor (opaque, named
  by a number), a list, a generator (given by what it yields), anything else.
  Iterating a list or a generator gives its elements; the tensors here are
  opaque 0-d values, whose iteration raises TypeError.
\<close>

datatype pyval = Tensor nat | PyList "pyval list" | Generator "pyval list" | PyOther

definition py_iter :: "pyval \<Rightarrow> pyerr + pyval list" where
  "py_iter v =
     (case v of
        PyList xs \<Rightarrow> Inr xs
      | Generator xs \<Rightarrow> Inr xs
      | Tensor _ \<Rightarrow> Inl TypeError
      | PyOther \<Rightarrow> Inl TypeError)"

text \<open>The body of \<^verbatim>\<open>for mt in self.multi_sample(t)\<close>, with \<open>output\<close> threaded.\<close>

fun MultiSampleTransform_loop ::
  "(pyval \<Rightarrow> pyerr + pyval) \<Rightarrow> pyval list \<Rightarrow> pyval list \<Rightarrow> pyerr + pyval list" where
  "MultiSampleTransform_loop multi_sample output [] = Inr output"
| "MultiSampleTransform_loop multi_sample output (mt # rest) =
     (case multi_sample mt of
        Inl err \<Rightarrow> Inl err
      | Inr mt_out \<Rightarrow>
          (case mt_out of
             Tensor _ \<Rightarrow> MultiSampleTransform_loop multi_sample (output @ [mt_out]) rest
           | PyList xs \<Rightarrow> MultiSampleTransform_loop multi_sample (output @ xs) rest
           | Generator _ \<Rightarrow> Inl ValueError
           | PyOther \<Rightarrow> Inl ValueError))"

definition MultiSampleTransform_call ::
  "(pyval \<Rightarrow> pyerr + pyval) \<Rightarrow> (pyval \<Rightarrow> pyerr + pyval) \<Rightarrow> pyval \<Rightarrow> pyerr + pyval list" where
  "MultiSampleTransform_call multi_sample transforms t =
     (case multi_sample t of
        Inl err \<Rightarrow> Inl err
      | Inr samples \<Rightarrow>
          (case py_iter samples of
             Inl err \<Rightarrow> Inl err
           | Inr mts \<Rightarrow> MultiSampleTransform_loop multi_sample [] mts))"

text \<open>
  The behaviour that the specification words for the multi-sample collaborator:
  the downstream pipeline \<open>transforms\<close> is applied to each yielded sub-sample
  and the results are concatenated in yield order.
\<close>

fun MultiSampleTransform_spec_loop ::
  "(pyval \<Rightarrow> pyerr + pyval) \<Rightarrow> pyval list \<Rightarrow> pyval list \<Rightarrow> pyerr + pyval list" where
  "MultiSampleTransform_spec_loop transforms output [] = Inr output"
| "MultiSampleTransform_spec_loop transforms output (mt # rest) =
     (case transforms mt of
        Inl err \<Rightarrow> Inl err
      | Inr mt_out \<Rightarrow>
          (case mt_out of
             Tensor _ \<Rightarrow> MultiSampleTransform_spec_loop transforms (output @ [mt_out]) rest
           | PyList xs \<Rightarrow> MultiSampleTransform_spec_loop transforms (output @ xs) rest
           | Generator _ \<Rightarrow> Inl ValueError
           | PyOther \<Rightarrow> Inl ValueError))"

definition MultiSampleTransform_spec ::
  "(pyval \<Rightarrow> pyerr + pyval) \<Rightarrow> (pyval \<Rightarrow> pyerr + pyval) \<Rightarrow> pyval \<Rightarrow> pyerr + pyval list" where
  "MultiSampleTransform_spec multi_sample transforms t =
     (case multi_sample t of
        Inl err \<Rightarrow> Inl err
      | Inr samples \<Rightarrow>
          (case py_iter samples of
             Inl err \<Rightarrow> Inl err
           | Inr mts \<Rightarrow> MultiSampleTransform_spec_loop transforms [] mts))"

section \<open>Concrete inputs\<close>

text \<open>
  A 2-d image of shape \<open>[1, 2, 2]\<close> with a given queue, queue entries that set
  only the interpolation mode, and the matrices that occur when \<^verbatim>\<open>apply\<close> runs
  on them: the centroid-seeded start \<open>[[1,0,1],[0,1,1],[0,0,1]]\<close> and a scaling
  by 2.
\<close>

definition example_image :: "meta_matrix list \<Rightarrow> unit image" where
  "example_image q = \<lparr>img_shape = [1, 2, 2], pending_transforms = q, img_pixels = ()\<rparr>"

definition example_entry :: "matrix \<Rightarrow> string \<Rightarrow> meta_matrix" where
  "example_entry M m = \<lparr>mm_matrix = M, mm_metadata = [''mode'' \<mapsto> MStr m]\<rparr>"

definition example_start :: matrix where
  "example_start = [[1, 0, 1], [0, 1, 1], [0, 0, 1]]"

definition example_scale :: matrix where
  "example_scale = [[2, 0, 0], [0, 2, 0], [0, 0, 1]]"

definition example_corners :: "vec list" where
  "example_corners = [[0, 0, 1], [0, 2, 1], [2, 0, 1], [2, 2, 1]]"

definition example_extents :: "vec list" where
  "example_extents = [[0, 0, 1], [0, 2, 3], [2, 0, 3], [2, 2, 5]]"

text \<open>
  A functional \<^verbatim>\<open>rotate\<close> to run \<open>Rotate_call\<close> on: it wraps the input as a
  \<^verbatim>\<open>MetaTensor\<close> and returns the identity increment with the mode as metadata.
\<close>

definition example_rotate :: "unit rotate_fn" where
  "example_rotate img angle keep_size mode padding_mode align_corners dtype shape_override =
     Inr (case img of
            Ndarray sh p \<Rightarrow> \<lparr>img_shape = sh, pending_transforms = [], img_pixels = p\<rparr>
          | MetaTensor t \<Rightarrow> t,
          identity 2, [''mode'' \<mapsto> MStr mode])"

definition example_Rotate :: "bool \<Rightarrow> Rotate" where
  "example_Rotate lazy =
     \<lparr>Rotate_angle = Scalar 0, Rotate_keep_size = True, Rotate_mode = ''bilinear'',
      Rotate_padding_mode = ''border'', Rotate_align_corners = False,
      Rotate_dtype = ''float32'', Rotate_lazy_evaluation = lazy\<rparr>"

text \<open>
  A multi-sample generator that yields two sub-samples of whatever it is given,
  and a downstream pipeline that maps tensor \<open>n\<close> to tensor \<open>n + 10\<close>.
\<close>

definition example_multi_sample :: "pyval \<Rightarrow> pyerr + pyval" where
  "example_multi_sample t = Inr (Generator [Tensor 1, Tensor 2])"

definition example_transforms :: "pyval \<Rightarrow> pyerr + pyval" where
  "example_transforms t = (case t of Tensor n \<Rightarrow> Inr (Tensor (n + 10)) | _ \<Rightarrow> Inr t)"

section \<open>Properties of apply.py\<close>

subsection \<open>extents_from_shape\<close>

lemma extents_from_shape_length:
  "length shape = Suc d \<Longrightarrow> length (extents_from_shape shape) = 2 ^ d"
proof -
  have pairs: "length (product_lists xss) = 2 ^ length xss"
    if "\<forall>xs \<in> set xss. length xs = 2" for xss :: "int list list"
    using that by (induction xss) (simp_all add: length_concat o_def sum_list_triv)
  assume "length shape = Suc d"
  then show ?thesis
    by (simp add: extents_from_shape_def Let_def pairs)
qed

lemma extents_from_shape_set:
  assumes "length shape = Suc d"
  shows "set (extents_from_shape shape) =
     {e. length e = Suc d \<and> e ! d = 1 \<and> (\<forall>i<d. e ! i = 0 \<or> e ! i = shape ! Suc i)}"
proof -
  let ?xss = "map (\<lambda>i. [0, shape ! i]) [1..<length shape]"
  let ?C = "{e. length e = Suc d \<and> e ! d = 1 \<and> (\<forall>i<d. e ! i = 0 \<or> e ! i = shape ! Suc i)}"
  have len: "length ?xss = d" using assms by simp
  have nth: "\<And>i. i < d \<Longrightarrow> ?xss ! i = [0, shape ! Suc i]"
    using assms by (simp del: upt_Suc)
  have P: "set (product_lists ?xss) =
      {c. length c = d \<and> (\<forall>i<d. c ! i = 0 \<or> c ! i = shape ! Suc i)}"
    unfolding product_lists_set using len nth
    by (auto simp add: list_all2_conv_all_nth)
  show ?thesis
  proof (intro set_eqI iffI)
    fix e assume "e \<in> set (extents_from_shape shape)"
    then obtain c where c: "c \<in> set (product_lists ?xss)" and e: "e = c @ [1]"
      by (auto simp: extents_from_shape_def Let_def)
    from c P have "length c = d" "\<forall>i<d. c ! i = 0 \<or> c ! i = shape ! Suc i" by auto
    then show "e \<in> ?C"
      using e by (auto simp: nth_append)
  next
    fix e assume "e \<in> ?C"
    then have l: "length e = Suc d" and o: "e ! d = 1"
      and a: "\<forall>i<d. e ! i = 0 \<or> e ! i = shape ! Suc i" by auto
    from l have ne: "e \<noteq> []" by auto
    then have "e = butlast e @ [last e]" by simp
    moreover have "last e = 1" using l o ne by (simp add: last_conv_nth)
    ultimately have e: "e = butlast e @ [1]" by simp
    have "butlast e \<in> set (product_lists ?xss)"
      unfolding P using l a by (simp add: nth_butlast)
    then show "e \<in> set (extents_from_shape shape)"
      using e by (force simp: extents_from_shape_def Let_def)
  qed
qed

text \<open>
  Claim C9. For a shape of length \<open>d + 1\<close>, \<open>extents_from_shape\<close> returns a list
  of \<open>2 ^ d\<close> corners; the corners are exactly the vectors of length \<open>d + 1\<close>
  that end in 1 and whose \<open>i\<close>-th coordinate is 0 or the size of axis \<open>i + 1\<close>
  (the leading axis is skipped). For the shape \<open>[1, 24, 32]\<close> the result is
  \<open>(0,0,1), (0,32,1), (24,0,1), (24,32,1)\<close>, in this order.
\<close>

theorem extents_from_shape_corners:
  "(length shape = Suc d \<longrightarrow>
      length (extents_from_shape shape) = 2 ^ d \<and>
      set (extents_from_shape shape) =
        {e. length e = Suc d \<and> e ! d = 1 \<and> (\<forall>i<d. e ! i = 0 \<or> e ! i = shape ! Suc i)}) \<and>
   extents_from_shape [1, 24, 32] = [[0, 0, 1], [0, 32, 1], [24, 0, 1], [24, 32, 1]]"
proof -
  have "extents_from_shape [1, 24, 32] = [[0, 0, 1], [0, 32, 1], [24, 0, 1], [24, 32, 1]]"
    by (simp add: extents_from_shape_def Let_def upt_rec)
  then show ?thesis
    using extents_from_shape_length extents_from_shape_set by blast
qed

theorem extents_from_shape_corners_witness:
  "length [1, 12, 16, 8 :: int] = Suc 3 \<and>
   length (extents_from_shape [1, 12, 16, 8]) = 2 ^ 3 \<and>
   [12, 0, 8, 1] \<in> set (extents_from_shape [1, 12, 16, 8])"
proof -
  have h: "length [1, 12, 16, 8 :: int] = Suc 3" by simp
  have "[12, 0, 8, 1] \<in> {e. length e = Suc 3 \<and> e ! 3 = 1 \<and>
      (\<forall>i<3. e ! i = 0 \<or> e ! i = [1, 12, 16, 8 :: int] ! Suc i)}"
    by (simp add: nth_Cons' less_Suc_eq numeral_3_eq_3)
  then show ?thesis
    using h extents_from_shape_corners [of "[1, 12, 16, 8]" 3] by simp
qed

subsection \<open>The loop of apply\<close>

text \<open>
  A field is accepted when either side is unset or both values are equal.
\<close>

lemma metadata_is_compatible_iff:
  "metadata_is_compatible a b \<longleftrightarrow> a = None \<or> b = None \<or> a = b"
  by (auto simp: metadata_is_compatible_def split: option.splits)

text \<open>
  The accumulated metadata starts unset and is assigned only in the flush
  branch, which needs a set and different accumulated value to be entered. So
  the loop never leaves the idle state: it never calls the resampler and never
  assigns \<open>kwargs\<close>.
\<close>

lemma idle_apply_init: "idle (apply_init data cm ce)"
  by (simp add: idle_def apply_init_def)

lemma apply_step_idle:
  "idle st \<Longrightarrow> (case apply_step Affine st m of Inl (err, cs) \<Rightarrow> cs = [] | Inr st' \<Rightarrow> idle st')"
  by (simp add: apply_step_def idle_def metadata_is_compatible_def Let_def split: sum.splits)

lemma apply_loop_idle:
  "idle st \<Longrightarrow> (case apply_loop Affine st ms of Inl (err, cs) \<Rightarrow> cs = [] | Inr st' \<Rightarrow> idle st')"
proof (induction ms arbitrary: st)
  case Nil
  then show ?case by simp
next
  case (Cons m ms)
  show ?case
  proof (cases "apply_step Affine st m")
    case (Inl a)
    with apply_step_idle [OF Cons.prems, of Affine m] show ?thesis by simp
  next
    case (Inr st')
    with apply_step_idle [OF Cons.prems, of Affine m] have "idle st'" by simp
    from Cons.IH [OF this] Inr show ?thesis by simp
  qed
qed

lemma apply_loop_idle_Inl: "idle st \<Longrightarrow> apply_loop Affine st ms = Inl (err, cs) \<Longrightarrow> cs = []"
  using apply_loop_idle [of st Affine ms] by simp

lemma apply_loop_idle_Inr: "idle st \<Longrightarrow> apply_loop Affine st ms = Inr st' \<Longrightarrow> idle st'"
  using apply_loop_idle [of st Affine ms] by simp

text \<open>
  Hence \<^verbatim>\<open>apply\<close> returns its input (when the \<open>pending\<close> argument is empty) or
  raises, and in both cases the resampler has not been called.
\<close>

lemma apply_never_resamples:
  "apply Affine data pending = (Returned (Some data), []) \<or>
   (\<exists>err. apply Affine data pending = (Raised err, []))"
  by (auto simp: apply_def Let_def idle_def split: option.splits sum.splits prod.splits
      dest: apply_loop_idle_Inl [OF idle_apply_init] apply_loop_idle_Inr [OF idle_apply_init])

lemma apply_None: "apply Affine data None = (Raised TypeError, [])"
  by (simp add: apply_def)

lemma apply_empty_argument: "apply Affine data (Some []) = (Returned (Some data), [])"
  by (simp add: apply_def)

subsection \<open>Evaluation on the concrete inputs\<close>

lemma apply_init_sel [simp]:
  "st_data (apply_init data cm ce) = data"
  "cumulative_matrix (apply_init data cm ce) = cm"
  "cumulative_extents (apply_init data cm ce) = ce"
  "cur_mode (apply_init data cm ce) = None"
  "cur_padding_mode (apply_init data cm ce) = None"
  "cur_device (apply_init data cm ce) = None"
  "cur_dtype (apply_init data cm ce) = None"
  "kwargs (apply_init data cm ce) = None"
  "calls (apply_init data cm ce) = []"
  by (simp_all add: apply_init_def)

lemma example_image_sel [simp]:
  "img_shape (example_image q) = [1, 2, 2]"
  "pending_transforms (example_image q) = q"
  by (simp_all add: example_image_def)

lemma example_entry_sel [simp]:
  "mm_matrix (example_entry M m) = M"
  "mm_metadata (example_entry M m) = [''mode'' \<mapsto> MStr m]"
  by (simp_all add: example_entry_def)

lemma example_starting:
  "starting_matrix_and_extents 2 (example_image q) = Inr (example_start, example_extents)"
  by code_simp

lemma example_corners_eq:
  "map (map rat_of_int) (extents_from_shape (img_shape (example_image q))) = example_corners"
  by code_simp

lemma matmul_identity_start: "matmul (identity 2) example_start = Inr example_start"
  by code_simp

lemma matmul_scale_start:
  "matmul example_scale example_start = Inr [[2, 0, 2], [0, 2, 2], [0, 0, 1]]"
  by code_simp

lemma matmul_identity_scale_start:
  "matmul (identity 2) [[2, 0, 2], [0, 2, 2], [0, 0, 1]] = Inr [[2, 0, 2], [0, 2, 2], [0, 0, 1]]"
  by code_simp

lemma map_vecmat_corners_start: "map_vecmat example_corners example_start = Inr example_extents"
  by code_simp

lemma map_vecmat_extents_start:
  "map_vecmat example_extents example_start = Inr [[0, 0, 1], [0, 2, 5], [2, 0, 5], [2, 2, 9]]"
  by code_simp

lemma map_vecmat_extents_scale:
  "map_vecmat example_extents [[2, 0, 2], [0, 2, 2], [0, 0, 1]] =
     Inr [[0, 0, 1], [0, 4, 7], [4, 0, 7], [4, 4, 13]]"
  by code_simp

lemma map_vecmat_extents_scale2:
  "map_vecmat [[0, 0, 1], [0, 4, 7], [4, 0, 7], [4, 4, 13]] [[2, 0, 2], [0, 2, 2], [0, 0, 1]] =
     Inr [[0, 0, 1], [0, 8, 15], [8, 0, 15], [8, 8, 29]]"
  by code_simp

lemma step_compatible:
  "apply_step Affine (apply_init data example_start example_extents)
     (example_entry (identity 2) m) =
   Inr (apply_init data example_start [[0, 0, 1], [0, 2, 5], [2, 0, 5], [2, 2, 9]])"
  by (simp del: map_vecmat.simps add: apply_step_def matmul_identity_start map_vecmat_extents_start
      metadata_is_compatible_def Let_def apply_init_def)

lemma step_scale:
  "apply_step Affine (apply_init data example_start example_extents)
     (example_entry example_scale m) =
   Inr (apply_init data [[2, 0, 2], [0, 2, 2], [0, 0, 1]]
          [[0, 0, 1], [0, 4, 7], [4, 0, 7], [4, 4, 13]])"
  by (simp del: map_vecmat.simps add: apply_step_def matmul_scale_start map_vecmat_extents_scale
      metadata_is_compatible_def Let_def apply_init_def)

lemma step_second:
  "apply_step Affine (apply_init data [[2, 0, 2], [0, 2, 2], [0, 0, 1]]
          [[0, 0, 1], [0, 4, 7], [4, 0, 7], [4, 4, 13]])
     (example_entry (identity 2) m) =
   Inr (apply_init data [[2, 0, 2], [0, 2, 2], [0, 0, 1]]
          [[0, 0, 1], [0, 8, 15], [8, 0, 15], [8, 8, 29]])"
  by (simp del: map_vecmat.simps add: apply_step_def matmul_identity_scale_start map_vecmat_extents_scale2
      metadata_is_compatible_def Let_def apply_init_def)

text \<open>
  Claim C1 says that a queue of \<open>N\<close> entries with \<open>k\<close> incompatibility
  boundaries makes \<^verbatim>\<open>apply\<close> call the resampler \<open>k + 1\<close> times. On the code,
  for a queue of one entry (\<open>k = 0\<close>) and for a queue of a bilinear entry
  followed by a nearest entry (\<open>k = 1\<close>), whatever the resampler is, \<^verbatim>\<open>apply\<close>
  raises UnboundLocalError at the read of \<open>kwargs\<close> in line 169 and the
  resampler has been called zero times.
\<close>

theorem apply_resamples_zero_times:
  "apply Affine (example_image [example_entry (identity 2) ''bilinear''])
     (Some [example_entry (identity 2) ''bilinear'']) = (Raised UnboundLocalError, []) \<and>
   apply Affine (example_image [example_entry example_scale ''bilinear'',
                                example_entry (identity 2) ''nearest''])
     (Some [example_entry example_scale ''bilinear'', example_entry (identity 2) ''nearest'']) =
     (Raised UnboundLocalError, [])"
  by (simp add: apply_def MatrixFactory_def example_starting step_compatible step_scale
      step_second Let_def)


text \<open>
  What one pass of the loop does to the extents: the extents of the previous
  pass, not the corners of the image, are multiplied by the new cumulative
  matrix.
\<close>

lemma apply_step_extents:
  "apply_step Affine st m = Inr st' \<Longrightarrow>
   map_vecmat (cumulative_extents st) (cumulative_matrix st') = Inr (cumulative_extents st')"
  by (auto simp: apply_step_def Let_def split: sum.splits if_splits)

text \<open>A compatible entry changes neither the accumulated metadata nor the call log.\<close>

lemma apply_step_compatible_keeps_metadata:
  "apply_step Affine st m = Inr st' \<Longrightarrow>
   metadata_is_compatible (cur_mode st) (mm_metadata m ''mode'') \<Longrightarrow>
   metadata_is_compatible (cur_padding_mode st) (mm_metadata m ''padding_mode'') \<Longrightarrow>
   metadata_is_compatible (cur_device st) (mm_metadata m ''device'') \<Longrightarrow>
   metadata_is_compatible (cur_dtype st) (mm_metadata m ''dtype'') \<Longrightarrow>
   cur_mode st' = cur_mode st \<and> cur_padding_mode st' = cur_padding_mode st \<and>
   cur_device st' = cur_device st \<and> cur_dtype st' = cur_dtype st \<and> calls st' = calls st"
  by (auto simp: apply_step_def Let_def split: sum.splits)

text \<open>
  Claim C2 says that after each queue entry the cumulative extents are the
  original corners of the image transformed by the new cumulative matrix. On
  the code, for the image of shape \<open>[1, 2, 2]\<close> and one entry whose increment is
  the identity: the loop starts with the matrix \<open>example_start\<close> and the extents
  \<open>(0,0,1), (0,2,3), (2,0,3), (2,2,5)\<close>; after the entry the cumulative matrix is
  still \<open>example_start\<close>, the cumulative extents are
  \<open>(0,0,1), (0,2,5), (2,0,5), (2,2,9)\<close>, and the original corners transformed by
  the cumulative matrix are \<open>(0,0,1), (0,2,3), (2,0,3), (2,2,5)\<close>: the start
  translation has been applied twice.
\<close>

theorem apply_step_extents_reapplied:
  "starting_matrix_and_extents 2 (example_image q) = Inr (example_start, example_extents) \<and>
   (case apply_step Affine (apply_init (example_image q) example_start example_extents)
           (example_entry (identity 2) m) of
      Inl _ \<Rightarrow> False
    | Inr st' \<Rightarrow>
        cumulative_matrix st' = example_start \<and>
        cumulative_extents st' = [[0, 0, 1], [0, 2, 5], [2, 0, 5], [2, 2, 9]] \<and>
        map_vecmat (map (map rat_of_int) (extents_from_shape (img_shape (example_image q))))
          (cumulative_matrix st') = Inr [[0, 0, 1], [0, 2, 3], [2, 0, 3], [2, 2, 5]])"
proof -
  have step: "apply_step Affine (apply_init (example_image q) example_start example_extents)
      (example_entry (identity 2) m) =
    Inr (apply_init (example_image q) example_start [[0, 0, 1], [0, 2, 5], [2, 0, 5], [2, 2, 9]])"
    by (rule step_compatible)
  have corners: "map_vecmat (map (map rat_of_int) (extents_from_shape (img_shape (example_image q))))
      example_start = Inr [[0, 0, 1], [0, 2, 3], [2, 0, 3], [2, 2, 5]]"
    using map_vecmat_corners_start by (simp only: example_corners_eq example_extents_def)
  show ?thesis
    using corners by (simp del: map_vecmat.simps add: example_starting step)
qed

text \<open>
  Claim C3 describes the flush at an incompatible entry. On the code, first,
  the body of the loop run in a state whose accumulated mode is bilinear, on an
  entry of mode nearest that scales by 2: the resampler is called with
  \<open>[[2,0,2],[0,2,2],[0,0,1]]\<close>, the product of the entry's increment and the
  matrix accumulated before it, and afterwards the cumulative matrix is that
  same product and the extents are the old ones multiplied by it (no reset);
  only the accumulated mode changes to nearest. Second, \<^verbatim>\<open>apply\<close>'s loop run
  from its start on the queue of a bilinear entry followed by a nearest entry:
  it ends with no resampler call, no accumulated mode and \<open>kwargs\<close> unassigned,
  so the incompatible entry was not met as one.
\<close>

theorem apply_step_flush_keeps_increment:
  "(case apply_step Affine
           ((apply_init data example_start example_extents)\<lparr>cur_mode := Some (MStr ''bilinear'')\<rparr>)
           (example_entry example_scale ''nearest'') of
      Inl (err, cs) \<Rightarrow> cs = [([[2, 0, 2], [0, 2, 2], [0, 0, 1]], [''mode'' \<mapsto> MStr ''bilinear''])]
    | Inr st' \<Rightarrow>
        calls st' = [([[2, 0, 2], [0, 2, 2], [0, 0, 1]], [''mode'' \<mapsto> MStr ''bilinear''])] \<and>
        cumulative_matrix st' = [[2, 0, 2], [0, 2, 2], [0, 0, 1]] \<and>
        cumulative_extents st' = [[0, 0, 1], [0, 4, 7], [4, 0, 7], [4, 4, 13]] \<and>
        cur_mode st' = Some (MStr ''nearest'')) \<and>
   (case apply_loop Affine (apply_init data example_start example_extents)
           [example_entry example_scale ''bilinear'', example_entry (identity 2) ''nearest''] of
      Inl _ \<Rightarrow> False
    | Inr st' \<Rightarrow> calls st' = [] \<and> cur_mode st' = None \<and> kwargs st' = None)"
proof -
  have flush: "case apply_step Affine
           ((apply_init data example_start example_extents)\<lparr>cur_mode := Some (MStr ''bilinear'')\<rparr>)
           (example_entry example_scale ''nearest'') of
      Inl (err, cs) \<Rightarrow> cs = [([[2, 0, 2], [0, 2, 2], [0, 0, 1]], [''mode'' \<mapsto> MStr ''bilinear''])]
    | Inr st' \<Rightarrow>
        calls st' = [([[2, 0, 2], [0, 2, 2], [0, 0, 1]], [''mode'' \<mapsto> MStr ''bilinear''])] \<and>
        cumulative_matrix st' = [[2, 0, 2], [0, 2, 2], [0, 0, 1]] \<and>
        cumulative_extents st' = [[0, 0, 1], [0, 4, 7], [4, 0, 7], [4, 4, 13]] \<and>
        cur_mode st' = Some (MStr ''nearest'')"
    by (simp del: map_vecmat.simps add: apply_step_def matmul_scale_start
        map_vecmat_extents_scale prepare_args_dict_for_apply_def metadata_is_compatible_def
        Let_def split: sum.splits)
  have loop: "apply_loop Affine (apply_init data example_start example_extents)
           [example_entry example_scale ''bilinear'', example_entry (identity 2) ''nearest''] =
      Inr (apply_init data [[2, 0, 2], [0, 2, 2], [0, 0, 1]]
             [[0, 0, 1], [0, 8, 15], [8, 0, 15], [8, 8, 29]])"
    by (simp add: step_scale step_second)
  show ?thesis
    using flush by (simp only: loop) simp
qed

text \<open>
  Claim C5 says that \<^verbatim>\<open>apply\<close> returns an image with an empty queue unchanged.
  On the code, called as the wrappers call it, \<^verbatim>\<open>apply(data)\<close>, on an image with
  an empty queue, it raises TypeError at \<^verbatim>\<open>len(pending)\<close>; the resampler has not
  been called.
\<close>

theorem apply_empty_queue_raises_TypeError:
  "pending_transforms (example_image []) = [] \<and>
   apply Affine (example_image []) None = (Raised TypeError, [])"
  by (simp add: apply_def)

text \<open>
  Claim C6 says that a compatible entry fills the accumulated fields that are
  still unset. On the code, the first entry of a queue, with mode bilinear, is
  compatible with the unset accumulated mode, and after it the accumulated
  mode is still unset.
\<close>

theorem apply_step_compatible_no_merge:
  "mm_metadata (example_entry (identity 2) ''bilinear'') ''mode'' = Some (MStr ''bilinear'') \<and>
   metadata_is_compatible (cur_mode (apply_init data example_start example_extents))
     (mm_metadata (example_entry (identity 2) ''bilinear'') ''mode'') \<and>
   (case apply_step Affine (apply_init data example_start example_extents)
           (example_entry (identity 2) ''bilinear'') of
      Inl _ \<Rightarrow> False
    | Inr st' \<Rightarrow> cur_mode st' = None)"
  by (simp add: step_compatible metadata_is_compatible_def)

section \<open>Properties of array.py\<close>

text \<open>
  \<open>Rotate\<close> uses its stored angle whatever the call passes; \<open>Flip\<close> uses the
  call-time axis, also when it is absent, and overwrites its stored axis with
  it; \<open>Zoom\<close> lets a call-time value override the stored one and falls back to
  the stored one.
\<close>

lemma Rotate_resolve_angle:
  "fst (Rotate_resolve self angle mode padding_mode align_corners) = Rotate_angle self"
  by (simp add: Rotate_resolve_def Let_def)

lemma Flip_resolve_eq:
  "Flip_resolve self spatial_axis = (spatial_axis, self\<lparr>Flip_spatial_axis := spatial_axis\<rparr>)"
  by (simp add: Flip_resolve_def Let_def)

lemma Zoom_resolve_override:
  "Zoom_resolve self (Some f) (Some m) (Some p) (Some a) =
     (f, m, p, Some a, Zoom_keep_size self, Zoom_dtype self)"
  "Zoom_resolve self None None None None =
     (Zoom_factor self, Zoom_mode self, Zoom_padding_mode self, Zoom_align_corners self,
      Zoom_keep_size self, Zoom_dtype self)"
  by (simp_all add: Zoom_resolve_def)

text \<open>
  The eager path ends in \<^verbatim>\<open>apply(img_t)\<close>, whose \<open>pending\<close> argument is \<open>None\<close>: it
  raises, whatever the functional op and the resampler are. It is the deferred
  path followed by \<^verbatim>\<open>apply\<close>, which raises alike.
\<close>

lemma Rotate_eager_never_returns:
  "Rotate_lazy_evaluation self = False \<Longrightarrow>
   \<exists>err. Rotate_call rotate_op Affine self img angle mode padding_mode align_corners
      shape_override = (Raised err, [])"
  by (auto simp: Rotate_call_def apply_def Let_def split: prod.splits sum.splits)

lemma Rotate_eager_eq_deferred_then_apply:
  "Rotate_call rotate_op Affine (self\<lparr>Rotate_lazy_evaluation := False\<rparr>) img angle mode
     padding_mode align_corners shape_override =
   then_apply Affine (Rotate_call rotate_op Affine (self\<lparr>Rotate_lazy_evaluation := True\<rparr>) img
     angle mode padding_mode align_corners shape_override)"
  by (auto simp: Rotate_call_def Rotate_resolve_def then_apply_def Let_def
      split: prod.splits sum.splits)

text \<open>
  Claim C4 says that the eager op returns the output of the deferred op followed
  by \<^verbatim>\<open>apply\<close>. On the code, \<open>Rotate\<close> configured with \<^verbatim>\<open>lazy_evaluation=False\<close>
  and called on an image with an empty queue raises TypeError and returns no
  output; so does \<^verbatim>\<open>apply\<close> after the deferred call.
\<close>

theorem Rotate_eager_raises_TypeError:
  "Rotate_call example_rotate Affine (example_Rotate False) (MetaTensor (example_image []))
     None None None None None = (Raised TypeError, []) \<and>
   then_apply Affine
     (Rotate_call example_rotate Affine (example_Rotate True) (MetaTensor (example_image []))
        None None None None None) = (Raised TypeError, [])"
  by (simp add: Rotate_call_def Rotate_resolve_def then_apply_def example_rotate_def
      example_Rotate_def apply_def Let_def)

text \<open>
  Claim C7 says that a call-time value overrides the construction-time default
  and that the default is used when the call-time value is absent, the stored
  defaults staying as they are. On the code, \<open>Rotate\<close> constructed with angle 0
  and called with angle 1 resolves the angle to 0; \<open>Flip\<close> constructed with
  axis 1 and called without an axis resolves the axis to \<open>None\<close> and stores
  \<open>None\<close> as its axis.
\<close>

theorem resolve_call_time_not_overriding:
  "Rotate_resolve (example_Rotate lazy) (Some (Scalar 1)) None None None =
     (Scalar 0, ''bilinear'', ''border'', False, True, ''float32'') \<and>
   Flip_resolve \<lparr>Flip_spatial_axis = Some [1], Flip_lazy_evaluation = True\<rparr> None =
     (None, \<lparr>Flip_spatial_axis = None, Flip_lazy_evaluation = True\<rparr>)"
  by (simp add: Rotate_resolve_def example_Rotate_def Flip_resolve_def py_or_str_def
      py_or_bool_def)

section \<open>Properties of utility.py\<close>

text \<open>The result of \<open>MultiSampleTransform_call\<close> does not depend on \<open>transforms\<close>.\<close>

lemma MultiSampleTransform_call_transforms_unused:
  "MultiSampleTransform_call multi_sample transforms t =
   MultiSampleTransform_call multi_sample transforms' t"
  by (simp add: MultiSampleTransform_call_def)

text \<open>
  Claim C8 says that \<^verbatim>\<open>MultiSampleTransform\<close> applies the downstream pipeline to
  each yielded sub-sample and concatenates the results in yield order. On the
  code, with a generator that yields tensors 1 and 2 and a pipeline that adds 10,
  the call applies the generator again to each sub-sample and raises
  ValueError, where the behaviour of the claim is the list of tensors 11 and 12.
\<close>

theorem MultiSampleTransform_call_skips_transforms:
  "MultiSampleTransform_call example_multi_sample example_transforms (Tensor 0) = Inl ValueError \<and>
   MultiSampleTransform_spec example_multi_sample example_transforms (Tensor 0) =
     Inr [Tensor 11, Tensor 12]"
  by (simp add: MultiSampleTransform_call_def MultiSampleTransform_spec_def py_iter_def
      example_multi_sample_def example_transforms_def)

text \<open>
  Claim C10. When \<open>try_fetch\<close> reports the key present, \<open>CachedTransform_call\<close>
  returns the fetched value and the wrapped transforms are not invoked; when it
  reports the key absent, the transforms are invoked once, with the given
  arguments, their result is stored under the key and returned.
\<close>

theorem CachedTransform_call_hit_miss:
  "(try_fetch key (cache s) = (Inr (True, v), c1) \<longrightarrow>
      CachedTransform_call try_fetch store transforms key args s =
        (Returned v, s\<lparr>cache := c1\<rparr>)) \<and>
   (try_fetch key (cache s) = (Inr (False, v), c1) \<and> transforms args = Inr result \<and>
    store key result c1 = (Inr u, c2) \<longrightarrow>
      CachedTransform_call try_fetch store transforms key args s =
        (Returned result, \<lparr>cache = c2, invocations = invocations s @ [args]\<rparr>))"
  by (simp add: CachedTransform_call_def)

theorem CachedTransform_call_hit_miss_witness:
  "dict_try_fetch ''a'' (cache \<lparr>cache = [''a'' \<mapsto> 7 :: nat], invocations = [] :: nat list\<rparr>) =
     (Inr (True, Some 7), [''a'' \<mapsto> 7]) \<and>
   CachedTransform_call dict_try_fetch dict_store (\<lambda>x :: nat. Inr (Some (x + 1))) ''a'' 4
     \<lparr>cache = [''a'' \<mapsto> 7 :: nat], invocations = [] :: nat list\<rparr> =
     (Returned (Some 7), \<lparr>cache = [''a'' \<mapsto> 7], invocations = [] :: nat list\<rparr>) \<and>
   dict_try_fetch ''b'' (cache \<lparr>cache = [''a'' \<mapsto> 7 :: nat], invocations = [] :: nat list\<rparr>) =
     (Inr (False, None), [''a'' \<mapsto> 7]) \<and>
   (\<lambda>x :: nat. Inr (Some (x + 1)) :: pyerr + nat option) 4 = Inr (Some 5) \<and>
   dict_store ''b'' (Some 5) [''a'' \<mapsto> 7 :: nat] = (Inr (), [''a'' \<mapsto> 7, ''b'' \<mapsto> 5]) \<and>
   CachedTransform_call dict_try_fetch dict_store (\<lambda>x :: nat. Inr (Some (x + 1))) ''b'' 4
     \<lparr>cache = [''a'' \<mapsto> 7 :: nat], invocations = [] :: nat list\<rparr> =
     (Returned (Some 5), \<lparr>cache = [''a'' \<mapsto> 7, ''b'' \<mapsto> 5], invocations = [4]\<rparr>)"
proof -
  let ?s = "\<lparr>cache = [''a'' \<mapsto> 7 :: nat], invocations = [] :: nat list\<rparr>"
  let ?tr = "\<lambda>x :: nat. Inr (Some (x + 1)) :: pyerr + nat option"
  have h1: "dict_try_fetch ''a'' (cache ?s) = (Inr (True, Some 7), [''a'' \<mapsto> 7])"
    by (simp add: dict_try_fetch_def)
  have h2: "dict_try_fetch ''b'' (cache ?s) = (Inr (False, None), [''a'' \<mapsto> 7])"
    by (simp add: dict_try_fetch_def)
  have h3: "?tr 4 = Inr (Some 5)" by simp
  have h4: "dict_store ''b'' (Some 5) [''a'' \<mapsto> 7 :: nat] = (Inr (), [''a'' \<mapsto> 7, ''b'' \<mapsto> 5])"
    by (simp add: dict_store_def)
  from CachedTransform_call_hit_miss [where try_fetch = dict_try_fetch and key = "''a''" and s = ?s and v = "Some 7"
      and ?c1.0 = "[''a'' \<mapsto> 7]" and store = dict_store and transforms = ?tr and args = 4]
    h1 have a: "CachedTransform_call dict_try_fetch dict_store ?tr ''a'' 4 ?s =
      (Returned (Some 7), ?s)" by simp
  from CachedTransform_call_hit_miss [where try_fetch = dict_try_fetch and key = "''b''" and s = ?s and v = None
      and ?c1.0 = "[''a'' \<mapsto> 7]" and store = dict_store and transforms = ?tr and args = 4
      and result = "Some 5" and u = "()" and ?c2.0 = "[''a'' \<mapsto> 7, ''b'' \<mapsto> 5]"]
    h2 h3 h4 have b: "CachedTransform_call dict_try_fetch dict_store ?tr ''b'' 4 ?s =
      (Returned (Some 5), \<lparr>cache = [''a'' \<mapsto> 7, ''b'' \<mapsto> 5], invocations = [4]\<rparr>)" by simp
  show ?thesis by (intro conjI) (rule h1 a h2 h3 h4 b)+
qed

end
